theory Spec2Isabelle
  imports Main "HOL-Library.Word" "HOL-Library.Sublist"
begin

section \<open>Shelly and Milight: button, relay and MQTT reconciliation\<close>

text \<open>
  A shallow embedding of \<^verbatim>\<open>src/FF_ShellyMilight.cpp\<close>. The global variables of the
  sketch form one record that every function takes and returns. What the sketch does to
  the outside world (pin writes, blocking delays, MQTT publishes) is appended to a
  chronological event list kept in that record. \<^verbatim>\<open>TRACE\<close> calls are logging only and
  are left out.
\<close>

subsection \<open>Compile-time settings\<close>

text \<open>
  The macros below are defined in \<^verbatim>\<open>FF_Shelly.h\<close>, which is not part of the sources at
  hand; they are parameters of the model. \<^verbatim>\<open>unsigned long\<close> is 32 bits wide on the
  ESP8266.
\<close>

type_synonym ulong = "32 word"

record config =
  MQTT_MAX_PACKET_SIZE :: nat  \<comment> \<open>\<^verbatim>\<open>sizeof(message)\<close> in \<^verbatim>\<open>mqttCallback\<close>\<close>
  STATE_ON :: string  \<comment> \<open>C string searched in a state message (its characters before the zero)\<close>
  STATE_OFF :: string
  COMMAND_TIMEOUT :: ulong  \<comment> \<open>milliseconds\<close>
  SHADOW_LED_PIN_defined :: bool
  BUTTON_HIGH_TO_LOW_defined :: bool
  BUTTON_LOW_TO_HIGH_defined :: bool

subsection \<open>Observable effects\<close>

datatype pin = RELAY_PIN | SHADOW_LED_PIN

datatype level = RELAY_ON | RELAY_OFF | SHADOW_LED_ON | SHADOW_LED_OFF

datatype command = BULB_ON | BULB_OFF

datatype event =
    DigitalWrite pin level  \<comment> \<open>\<^verbatim>\<open>digitalWrite(pin, level)\<close>\<close>
  | Delay ulong  \<comment> \<open>\<^verbatim>\<open>delay(ms)\<close>\<close>
  | Publish command  \<comment> \<open>\<^verbatim>\<open>mqttClient.publish(MQTT_COMMAND, ...)\<close>\<close>
  | PublishWillUp  \<comment> \<open>\<^verbatim>\<open>mqttClient.publish(MQTT_LWT, MQTT_WILL_UP_MSG)\<close>\<close>
  | Subscribe  \<comment> \<open>\<^verbatim>\<open>mqttClient.subscribe\<close> of the state and/or update topic\<close>

datatype error = BufferOverrun nat  \<comment> \<open>store at this index, past the end of \<^verbatim>\<open>message\<close>\<close>

subsection \<open>Global variables\<close>

text \<open>
  The statistics counters are printed with \<^verbatim>\<open>%d\<close>; they are taken as 32-bit values
  whose increment wraps. \<open>millis\<close> is the millisecond clock read by \<^verbatim>\<open>millis()\<close>:
  it moves when \<^verbatim>\<open>delay\<close> blocks and between two passes of \<^verbatim>\<open>loop\<close>.
\<close>

record state =
  bulbOn :: bool
  relayOn :: bool
  mqttCommandFailed :: bool
  lastMqttCommandSent :: ulong
  mqttAvailable :: bool
  lastMqttConnectAttempt :: ulong
  pushCount :: "32 word"
  pushLost :: "32 word"
  syncLost :: "32 word"
  mqttLost :: "32 word"
  millis :: ulong
  events :: "event list"

definition emit :: "event \<Rightarrow> state \<Rightarrow> state" where
  "emit e s = s\<lparr>events := events s @ [e]\<rparr>"

definition delay :: "ulong \<Rightarrow> state \<Rightarrow> state" where
  "delay ms s = (emit (Delay ms) s)\<lparr>millis := millis s + ms\<rparr>"

subsection \<open>Sending a command (lines 77--83)\<close>

definition mqttSendCommand :: "bool \<Rightarrow> state \<Rightarrow> state" where
  "mqttSendCommand newState s =
     (emit (Publish (if newState then BULB_ON else BULB_OFF)) s)
       \<lparr>lastMqttCommandSent := millis s\<rparr>"

subsection \<open>Relay and bulb setters (lines 191--217)\<close>

text \<open>
  \<^verbatim>\<open>setRelayOn\<close> compares the recorded relay state with \<open>newState\<close>, but the level it
  writes to the pin is chosen from \<open>bulbOn\<close>, as line 196 does.
\<close>

definition setRelayOn :: "bool \<Rightarrow> state \<Rightarrow> state" where
  "setRelayOn newState s =
     (if relayOn s \<noteq> newState
      then (emit (DigitalWrite RELAY_PIN (if bulbOn s then RELAY_ON else RELAY_OFF)) s)
             \<lparr>relayOn := newState\<rparr>
      else s)"

definition setBulbOn :: "config \<Rightarrow> bool \<Rightarrow> state \<Rightarrow> bool \<times> state" where
  "setBulbOn cfg newState s =
     (if bulbOn s \<noteq> newState
      then (let s1 = s\<lparr>bulbOn := newState\<rparr>;
                s2 = (if SHADOW_LED_PIN_defined cfg
                      then emit (DigitalWrite SHADOW_LED_PIN
                                   (if bulbOn s1 then SHADOW_LED_ON else SHADOW_LED_OFF)) s1
                      else s1)
            in (True, s2))
      else (False, s))"

subsection \<open>The inbound message callback (lines 86--125)\<close>

abbreviation NUL :: char where
  "NUL \<equiv> CHR 0x00"

text \<open>
  Lines 87--95. \<open>message_of bufsize payload\<close> is the initialised part of the local buffer
  \<^verbatim>\<open>message[bufsize]\<close> after the copy and the store of the terminator, or the error of a
  store past the end of the buffer. The payload's length is \<^verbatim>\<open>length\<close>.
\<close>

definition msglen_of :: "nat \<Rightarrow> nat \<Rightarrow> nat" where
  "msglen_of bufsize len = (if len < bufsize then len else bufsize)"

definition message_of :: "nat \<Rightarrow> string \<Rightarrow> error + string" where
  "message_of bufsize payload =
     (let msglen = msglen_of bufsize (length payload);
          copied = take msglen payload
      in if msglen < bufsize then Inr (copied @ [NUL]) else Inl (BufferOverrun msglen))"

text \<open>A buffer read as a C string ends before its first zero byte.\<close>

definition c_str :: "string \<Rightarrow> string" where
  "c_str buf = takeWhile (\<lambda>c. c \<noteq> NUL) buf"

text \<open>\<^verbatim>\<open>strstr(haystack, needle) != NULL\<close> on C strings.\<close>

fun strstr :: "string \<Rightarrow> string \<Rightarrow> bool" where
  "strstr [] needle = (needle = [])"
| "strstr (c # haystack) needle = (prefix needle (c # haystack) \<or> strstr haystack needle)"

definition mqttCallback :: "config \<Rightarrow> string \<Rightarrow> string \<Rightarrow> state \<Rightarrow> error + state" where
  "mqttCallback cfg topic payload s =
     (case message_of (MQTT_MAX_PACKET_SIZE cfg) payload of
        Inl e \<Rightarrow> Inl e
      | Inr message \<Rightarrow>
          Inr (if mqttCommandFailed s
               then (mqttSendCommand (bulbOn s) (s\<lparr>syncLost := syncLost s + 1\<rparr>))
                      \<lparr>mqttCommandFailed := False\<rparr>
               else if strstr (c_str message) (STATE_ON cfg)
               then setRelayOn True
                      ((snd (setBulbOn cfg True s))\<lparr>lastMqttCommandSent := 0\<rparr>)
               else if strstr (c_str message) (STATE_OFF cfg)
               then (snd (setBulbOn cfg False s))\<lparr>lastMqttCommandSent := 0\<rparr>
               else s))"

subsection \<open>MQTT connection handling (lines 128--188)\<close>

text \<open>
  The transport is outside the sketch. One pass of \<^verbatim>\<open>loop\<close> sees it through these
  inputs: whether the client is connected, whether a connection attempt succeeds and
  leaves the client connected, the payloads that \<^verbatim>\<open>mqttClient.loop()\<close> hands to the
  callback, and what the debouncer reports.
\<close>

datatype logic = LOW | HIGH

record tick_input =
  connected :: bool
  connect_ok :: bool
  connected_after :: bool
  inbound :: "(string \<times> string) list"  \<comment> \<open>topic and payload\<close>
  button :: "logic option"  \<comment> \<open>\<open>None\<close>: \<^verbatim>\<open>debouncer.update()\<close> is false\<close>

definition mqttReconnect :: "tick_input \<Rightarrow> state \<Rightarrow> bool \<times> state" where
  "mqttReconnect inp s =
     (let s1 = (if connect_ok inp then emit Subscribe (emit PublishWillUp s) else s)
      in (connected_after inp, s1))"

fun deliver :: "config \<Rightarrow> (string \<times> string) list \<Rightarrow> state \<Rightarrow> error + state" where
  "deliver cfg [] s = Inr s"
| "deliver cfg ((topic, payload) # rest) s =
     (case mqttCallback cfg topic payload s of
        Inl e \<Rightarrow> Inl e
      | Inr s1 \<Rightarrow> deliver cfg rest s1)"

definition mqttLoop :: "config \<Rightarrow> tick_input \<Rightarrow> state \<Rightarrow> error + state" where
  "mqttLoop cfg inp s =
     (if \<not> connected inp
      then (let s1 = (if mqttAvailable s
                      then s\<lparr>mqttLost := mqttLost s + 1, mqttAvailable := False\<rparr>
                      else s);
                now = millis s1
            in if now - lastMqttConnectAttempt s1 > 5000
               then (let s2 = s1\<lparr>lastMqttConnectAttempt := now\<rparr>;
                         r = mqttReconnect inp s2
                     in if fst r
                        then Inr ((snd r)\<lparr>lastMqttConnectAttempt := 0, mqttAvailable := True\<rparr>)
                        else Inr (snd r))
               else Inr s1)
      else deliver cfg (inbound inp) (s\<lparr>mqttAvailable := True\<rparr>))"

subsection \<open>Button (lines 220--245)\<close>

definition toggleSwitch :: "config \<Rightarrow> logic \<Rightarrow> bool" where
  "toggleSwitch cfg read =
     ((False \<or> (BUTTON_HIGH_TO_LOW_defined cfg \<and> read = LOW))
        \<or> (BUTTON_LOW_TO_HIGH_defined cfg \<and> read = HIGH))"

definition buttonLoop :: "config \<Rightarrow> logic option \<Rightarrow> state \<Rightarrow> state" where
  "buttonLoop cfg upd s =
     (case upd of
        None \<Rightarrow> s
      | Some read \<Rightarrow>
          if toggleSwitch cfg read
          then (let s1 = s\<lparr>pushCount := pushCount s + 1\<rparr>;
                    s2 = snd (setBulbOn cfg (\<not> bulbOn s1) s1)
                in mqttSendCommand (bulbOn s2) s2)
          else s)"

subsection \<open>Command timeout (lines 248--274)\<close>

definition manageCommandTimeout :: "config \<Rightarrow> state \<Rightarrow> state" where
  "manageCommandTimeout cfg s =
     (if lastMqttCommandSent s \<noteq> 0
      then (let s1 = (if millis s - lastMqttCommandSent s > COMMAND_TIMEOUT cfg
                      then (let s2 = s\<lparr>pushLost := pushLost s + 1,
                                       lastMqttCommandSent := 0,
                                       mqttCommandFailed := True\<rparr>
                            in if bulbOn s2 \<and> relayOn s2
                               then delay 1000 (setRelayOn False s2)
                               else s2)
                      else s)
            in if mqttCommandFailed s1 then setRelayOn (bulbOn s1) s1 else s1)
      else s)"

subsection \<open>One pass of the main loop (lines 453--482)\<close>

text \<open>
  The statistics, temperature, syslog keep-alive and OTA parts of \<^verbatim>\<open>loop\<close> are optional
  and touch none of the variables above; they are left out.
\<close>

definition loop :: "config \<Rightarrow> tick_input \<Rightarrow> state \<Rightarrow> error + state" where
  "loop cfg inp s =
     (case mqttLoop cfg inp s of
        Inl e \<Rightarrow> Inl e
      | Inr s1 \<Rightarrow> Inr (buttonLoop cfg (button inp) (manageCommandTimeout cfg s1)))"

subsection \<open>Concrete settings and states\<close>

text \<open>
  Modelled from the spec: the values of the macros of \<^verbatim>\<open>FF_Shelly.h\<close> are missing.
  Example settings: the nominal command timeout of 1.5 s, a switch acting on both edges,
  no shadow LED, a buffer of 128 bytes and short tokens.
\<close>

definition example_config :: config where
  "example_config =
     \<lparr>MQTT_MAX_PACKET_SIZE = 128, STATE_ON = ''ON'', STATE_OFF = ''OFF'',
      COMMAND_TIMEOUT = 1500, SHADOW_LED_PIN_defined = False,
      BUTTON_HIGH_TO_LOW_defined = True, BUTTON_LOW_TO_HIGH_defined = True\<rparr>"

text \<open>
  Modelled from the spec: the initial values of the globals are set in \<^verbatim>\<open>FF_Shelly.h\<close>,
  which is missing. After \<^verbatim>\<open>setup\<close> the relay is off (line 414), the bulb state is off
  (header comment, line 10), nothing is pending, the counters are zero and the clock
  reads \<open>t\<close>.
\<close>

definition boot :: "ulong \<Rightarrow> state" where
  "boot t =
     \<lparr>bulbOn = False, relayOn = False, mqttCommandFailed = False,
      lastMqttCommandSent = 0, mqttAvailable = False, lastMqttConnectAttempt = 0,
      pushCount = 0, pushLost = 0, syncLost = 0, mqttLost = 0,
      millis = t, events = []\<rparr>"

subsection \<open>Running the sketch\<close>

text \<open>
  The Arduino core calls \<^verbatim>\<open>loop\<close> again and again. A pass is given by the time gone
  by since the previous one and by what the transport and the debouncer report.
\<close>

definition tick :: "config \<Rightarrow> ulong \<times> tick_input \<Rightarrow> state \<Rightarrow> error + state" where
  "tick cfg x s = loop cfg (snd x) (s\<lparr>millis := millis s + fst x\<rparr>)"

fun run :: "config \<Rightarrow> (ulong \<times> tick_input) list \<Rightarrow> state \<Rightarrow> error + state" where
  "run cfg [] s = Inr s"
| "run cfg (x # xs) s = (case tick cfg x s of Inl e \<Rightarrow> Inl e | Inr s1 \<Rightarrow> run cfg xs s1)"

text \<open>A pass with the client connected and no inbound message.\<close>

definition quiet :: "logic option \<Rightarrow> tick_input" where
  "quiet upd = \<lparr>connected = True, connect_ok = True, connected_after = True,
                 inbound = [], button = upd\<rparr>"

text \<open>Whether the debouncer's report makes \<^verbatim>\<open>buttonLoop\<close> toggle the bulb state.\<close>

definition pressed :: "config \<Rightarrow> logic option \<Rightarrow> bool" where
  "pressed cfg upd = (case upd of None \<Rightarrow> False | Some read \<Rightarrow> toggleSwitch cfg read)"

text \<open>The levels written to the relay pin so far, oldest first.\<close>

fun relay_level :: "event \<Rightarrow> level option" where
  "relay_level (DigitalWrite RELAY_PIN l) = Some l"
| "relay_level _ = None"

definition relay_writes :: "state \<Rightarrow> level list" where
  "relay_writes s = List.map_filter relay_level (events s)"

section \<open>Auxiliary facts\<close>

lemmas engine_defs = setRelayOn_def setBulbOn_def mqttSendCommand_def emit_def delay_def

lemma message_of_fits:
  "length payload < bufsize \<Longrightarrow> message_of bufsize payload = Inr (payload @ [NUL])"
  by (simp add: message_of_def msglen_of_def)

lemma c_str_terminated: "c_str (payload @ [NUL]) = c_str payload"
  by (induction payload) (simp_all add: c_str_def)

lemma strstr_iff_sublist: "strstr haystack needle \<longleftrightarrow> sublist needle haystack"
  by (induction haystack) (auto simp: sublist_Cons_right)

lemma sublist_c_str: "sublist needle (c_str buf) \<Longrightarrow> sublist needle buf"
  unfolding c_str_def
  by (meson prefix_imp_sublist takeWhile_is_prefix sublist_order.order.trans)

lemma relay_writes_update [simp]:
  "relay_writes (s\<lparr>lastMqttCommandSent := t\<rparr>) = relay_writes s"
  "relay_writes (s\<lparr>mqttAvailable := a\<rparr>) = relay_writes s"
  by (simp_all add: relay_writes_def)

lemma setBulbOn_fields [simp]:
  "bulbOn (snd (setBulbOn cfg b s)) = b"
  "relayOn (snd (setBulbOn cfg b s)) = relayOn s"
  "mqttCommandFailed (snd (setBulbOn cfg b s)) = mqttCommandFailed s"
  "lastMqttCommandSent (snd (setBulbOn cfg b s)) = lastMqttCommandSent s"
  "millis (snd (setBulbOn cfg b s)) = millis s"
  "pushCount (snd (setBulbOn cfg b s)) = pushCount s"
  "pushLost (snd (setBulbOn cfg b s)) = pushLost s"
  "syncLost (snd (setBulbOn cfg b s)) = syncLost s"
  by (auto simp: setBulbOn_def emit_def Let_def)

lemma setBulbOn_relay_writes [simp]:
  "relay_writes (snd (setBulbOn cfg b s)) = relay_writes s"
  by (simp add: setBulbOn_def emit_def Let_def relay_writes_def List.map_filter_def)

lemma setRelayOn_fields [simp]:
  "relayOn (setRelayOn b s) = b"
  "bulbOn (setRelayOn b s) = bulbOn s"
  "mqttCommandFailed (setRelayOn b s) = mqttCommandFailed s"
  "lastMqttCommandSent (setRelayOn b s) = lastMqttCommandSent s"
  "millis (setRelayOn b s) = millis s"
  "pushCount (setRelayOn b s) = pushCount s"
  "pushLost (setRelayOn b s) = pushLost s"
  "syncLost (setRelayOn b s) = syncLost s"
  by (auto simp: setRelayOn_def emit_def)

lemma setRelayOn_same: "relayOn s = b \<Longrightarrow> setRelayOn b s = s"
  by (simp add: setRelayOn_def)

text \<open>In normal mode the callback keeps the mode, and a relay that is on is left alone.\<close>

lemma mqttCallback_normal:
  assumes "\<not> mqttCommandFailed s" "relayOn s" "mqttCallback cfg topic payload s = Inr s'"
  shows "\<not> mqttCommandFailed s' \<and> relayOn s' \<and> relay_writes s' = relay_writes s"
  using assms
  by (auto simp: mqttCallback_def setRelayOn_same split: sum.splits if_splits)

lemma deliver_normal:
  assumes "\<not> mqttCommandFailed s" "relayOn s" "deliver cfg msgs s = Inr s'"
  shows "\<not> mqttCommandFailed s' \<and> relayOn s' \<and> relay_writes s' = relay_writes s"
  using assms
proof (induction msgs arbitrary: s)
  case Nil
  then show ?case by simp
next
  case (Cons m msgs)
  obtain topic payload where m: "m = (topic, payload)" by (cases m)
  from Cons.prems(3) m obtain s1 where
    s1: "mqttCallback cfg topic payload s = Inr s1" and rest: "deliver cfg msgs s1 = Inr s'"
    by (auto split: sum.splits)
  from mqttCallback_normal [OF Cons.prems(1,2) s1]
  have mid: "\<not> mqttCommandFailed s1" "relayOn s1" "relay_writes s1 = relay_writes s"
    by simp_all
  from Cons.IH [OF mid(1,2) rest] mid(3) show ?case by simp
qed

lemma mqttLoop_normal:
  assumes "\<not> mqttCommandFailed s" "relayOn s" "mqttLoop cfg inp s = Inr s'"
  shows "\<not> mqttCommandFailed s' \<and> relayOn s' \<and> relay_writes s' = relay_writes s"
proof (cases "connected inp")
  case True
  with assms(3) have "deliver cfg (inbound inp) (s\<lparr>mqttAvailable := True\<rparr>) = Inr s'"
    by (simp add: mqttLoop_def)
  with deliver_normal [of "s\<lparr>mqttAvailable := True\<rparr>" cfg "inbound inp" s'] assms(1,2)
  show ?thesis by simp
next
  case False
  with assms show ?thesis
    by (auto simp: mqttLoop_def mqttReconnect_def emit_def Let_def relay_writes_def
        List.map_filter_def split: if_splits)
qed

text \<open>A timeout check that does not enter bypass mode changes nothing.\<close>

lemma manageCommandTimeout_normal:
  assumes "\<not> mqttCommandFailed s" "\<not> mqttCommandFailed (manageCommandTimeout cfg s)"
  shows "manageCommandTimeout cfg s = s"
  using assms
  by (auto simp: manageCommandTimeout_def delay_def emit_def Let_def split: if_splits)

lemma buttonLoop_keeps:
  "relayOn (buttonLoop cfg upd s) = relayOn s"
  "mqttCommandFailed (buttonLoop cfg upd s) = mqttCommandFailed s"
  "pushLost (buttonLoop cfg upd s) = pushLost s"
  by (auto simp: buttonLoop_def mqttSendCommand_def emit_def Let_def split: option.splits)

lemma buttonLoop_relay_writes: "relay_writes (buttonLoop cfg upd s) = relay_writes s"
  by (auto simp: buttonLoop_def mqttSendCommand_def emit_def Let_def relay_writes_def
      List.map_filter_def setBulbOn_def split: option.splits)

lemma buttonLoop_bulb:
  "bulbOn (buttonLoop cfg upd s) = (if pressed cfg upd then \<not> bulbOn s else bulbOn s)"
  by (auto simp: buttonLoop_def pressed_def mqttSendCommand_def emit_def Let_def
      split: option.splits)

text \<open>Without an inbound message \<^verbatim>\<open>mqttLoop\<close> only does connection bookkeeping.\<close>

lemma mqttLoop_idle:
  assumes "inbound inp = []"
  shows "\<exists>m. mqttLoop cfg inp s = Inr m
           \<and> bulbOn m = bulbOn s \<and> relayOn m = relayOn s
           \<and> mqttCommandFailed m = mqttCommandFailed s
           \<and> lastMqttCommandSent m = lastMqttCommandSent s
           \<and> millis m = millis s \<and> pushLost m = pushLost s"
  using assms by (simp add: mqttLoop_def mqttReconnect_def emit_def Let_def)

lemma manageCommandTimeout_fires:
  assumes "lastMqttCommandSent s \<noteq> 0"
    and "COMMAND_TIMEOUT cfg < millis s - lastMqttCommandSent s"
  shows "pushLost (manageCommandTimeout cfg s) = pushLost s + 1
       \<and> lastMqttCommandSent (manageCommandTimeout cfg s) = 0
       \<and> mqttCommandFailed (manageCommandTimeout cfg s)"
  using assms by (simp add: manageCommandTimeout_def engine_defs Let_def)

lemma manageCommandTimeout_bypass:
  assumes "mqttCommandFailed s" "lastMqttCommandSent s \<noteq> 0 \<or> relayOn s = bulbOn s"
  shows "mqttCommandFailed (manageCommandTimeout cfg s)
       \<and> relayOn (manageCommandTimeout cfg s) = bulbOn (manageCommandTimeout cfg s)"
  using assms by (auto simp: manageCommandTimeout_def delay_def emit_def Let_def)

lemmas concrete_defs = example_config_def boot_def quiet_def loop_def mqttLoop_def
  mqttReconnect_def buttonLoop_def toggleSwitch_def manageCommandTimeout_def
  mqttCallback_def message_of_def msglen_of_def c_str_def pressed_def Let_def

section \<open>Properties\<close>

subsection \<open>The relay setter\<close>

text \<open>
  C1. Every call \<^verbatim>\<open>setRelayOn(newState)\<close> should be a no-op when the recorded relay state
  equals \<open>newState\<close>, and otherwise drive the pin to \<open>newState\<close> and record it, so that
  pin and record agree afterwards. The sketch does not do this: with the bulb state ON
  and the relay recorded ON, the call \<^verbatim>\<open>setRelayOn(false)\<close> of line 263 records the
  relay as off but writes \<^verbatim>\<open>RELAY_ON\<close> to the pin, because line 196 chooses the level
  from \<open>bulbOn\<close> and not from \<open>newState\<close>.
\<close>

theorem setRelayOn_writes_bulb_level:
  "setRelayOn False ((boot 0)\<lparr>bulbOn := True, relayOn := True\<rparr>)
     = (boot 0)\<lparr>bulbOn := True, relayOn := False,
                events := [DigitalWrite RELAY_PIN RELAY_ON]\<rparr>"
  by (simp add: setRelayOn_def emit_def boot_def)

subsection \<open>The discharge maneuver\<close>

text \<open>
  C2. When the command timeout fires with the bulb state ON and the relay ON, the relay
  hardware should be driven OFF, held for the settle delay and driven ON again. In the
  sketch the command sent at 1000 ms times out at 3000 ms, the recorded relay state goes
  off and on again around the delay of 1000 ms, but both pin writes carry \<^verbatim>\<open>RELAY_ON\<close>:
  the relay is never switched off, through the defect shown for C1.
\<close>

theorem discharge_never_switches_relay_off:
  "manageCommandTimeout example_config
     ((boot 3000)\<lparr>bulbOn := True, relayOn := True, lastMqttCommandSent := 1000\<rparr>)
   = (boot 4000)\<lparr>bulbOn := True, relayOn := True, mqttCommandFailed := True, pushLost := 1,
        events := [DigitalWrite RELAY_PIN RELAY_ON, Delay 1000,
                   DigitalWrite RELAY_PIN RELAY_ON]\<rparr>"
  by (simp add: manageCommandTimeout_def engine_defs boot_def example_config_def)

subsection \<open>Bypass mode\<close>

text \<open>
  C3. In bypass mode the relay is made equal to the bulb state by the timeout check, which
  runs before the button is read and acts only while a command is pending. So a pass of
  \<^verbatim>\<open>loop\<close> that starts in bypass mode and receives no message stays in bypass mode, and
  if a command is pending or relay and bulb state already agree, it ends with the relay
  equal to the bulb state exactly when no button edge toggled the bulb state in that pass.
  After a button edge the relay follows in the next pass, where the command just sent is
  pending.
\<close>

theorem bypass_tick_relay:
  assumes "mqttCommandFailed s" and "inbound inp = []"
    and "lastMqttCommandSent s \<noteq> 0 \<or> relayOn s = bulbOn s"
  shows "\<exists>s'. loop cfg inp s = Inr s' \<and> mqttCommandFailed s'
           \<and> (relayOn s' = bulbOn s') = (\<not> pressed cfg (button inp))"
proof -
  from mqttLoop_idle [OF assms(2)] obtain m where m: "mqttLoop cfg inp s = Inr m"
    and same: "bulbOn m = bulbOn s" "relayOn m = relayOn s"
      "mqttCommandFailed m = mqttCommandFailed s"
      "lastMqttCommandSent m = lastMqttCommandSent s"
    by blast
  from assms(1,3) same
  have "mqttCommandFailed m" "lastMqttCommandSent m \<noteq> 0 \<or> relayOn m = bulbOn m"
    by simp_all
  from manageCommandTimeout_bypass [OF this]
  have "mqttCommandFailed (manageCommandTimeout cfg m)"
    "relayOn (manageCommandTimeout cfg m) = bulbOn (manageCommandTimeout cfg m)"
    by simp_all
  then show ?thesis using m
    by (auto simp: loop_def buttonLoop_keeps buttonLoop_bulb)
qed

theorem bypass_tick_relay_witness:
  "mqttCommandFailed ((boot 5000)\<lparr>mqttCommandFailed := True, bulbOn := True,
                                   lastMqttCommandSent := 4000\<rparr>)
   \<and> inbound (quiet None) = []
   \<and> lastMqttCommandSent ((boot 5000)\<lparr>mqttCommandFailed := True, bulbOn := True,
                                       lastMqttCommandSent := 4000\<rparr>) \<noteq> 0
   \<and> (\<exists>s'. loop example_config (quiet None)
               ((boot 5000)\<lparr>mqttCommandFailed := True, bulbOn := True,
                             lastMqttCommandSent := 4000\<rparr>) = Inr s'
          \<and> mqttCommandFailed s' \<and> relayOn s' = bulbOn s')"
proof -
  let ?s = "(boot 5000)\<lparr>mqttCommandFailed := True, bulbOn := True,
                         lastMqttCommandSent := 4000\<rparr>"
  have h1: "mqttCommandFailed ?s" by simp
  have h2: "inbound (quiet None) = []" by (simp add: quiet_def)
  have h3: "lastMqttCommandSent ?s \<noteq> 0 \<or> relayOn ?s = bulbOn ?s" by simp
  have "\<not> pressed example_config (button (quiet None))"
    by (simp add: pressed_def quiet_def)
  with bypass_tick_relay [OF h1 h2 h3, of example_config] h2 show ?thesis by simp
qed

text \<open>
  A run from boot: the button is pressed at 100 ms, the command times out and bypass mode
  switches the relay on, then the button is pressed again. That pass ends in bypass mode
  with the bulb state OFF and the relay still ON.
\<close>

theorem bypass_tick_counterexample:
  "run example_config
     [(100, quiet (Some LOW)), (2000, quiet None), (100, quiet (Some HIGH))] (boot 0)
   = Inr ((boot 2200)\<lparr>bulbOn := False, relayOn := True, mqttCommandFailed := True,
            lastMqttCommandSent := 2200, mqttAvailable := True,
            pushCount := 2, pushLost := 1,
            events := [Publish BULB_ON, DigitalWrite RELAY_PIN RELAY_ON,
                       Publish BULB_OFF]\<rparr>)"
  by (simp add: tick_def concrete_defs engine_defs)

subsection \<open>Button edges\<close>

text \<open>
  C4. On every button change of a configured polarity, in any mode, \<^verbatim>\<open>buttonLoop\<close>
  toggles the bulb state, publishes a command carrying the new bulb state, sets the
  pending-command time to the current time and increments the press counter. It leaves
  the relay and the mode as they are: the relay is switched only by the callback and by
  the timeout check.
\<close>

theorem button_edge_effects:
  assumes "toggleSwitch cfg read" and "s' = buttonLoop cfg (Some read) s"
  shows "bulbOn s' = (\<not> bulbOn s)
       \<and> relayOn s' = relayOn s
       \<and> mqttCommandFailed s' = mqttCommandFailed s
       \<and> lastMqttCommandSent s' = millis s
       \<and> pushCount s' = pushCount s + 1
       \<and> events s'
           = events s
             @ (if SHADOW_LED_PIN_defined cfg
                then [DigitalWrite SHADOW_LED_PIN
                        (if bulbOn s' then SHADOW_LED_ON else SHADOW_LED_OFF)]
                else [])
             @ [Publish (if bulbOn s' then BULB_ON else BULB_OFF)]"
  using assms by (simp add: buttonLoop_def engine_defs Let_def)

theorem button_edge_effects_witness:
  "toggleSwitch example_config HIGH
   \<and> bulbOn (buttonLoop example_config (Some HIGH) ((boot 7)\<lparr>bulbOn := True\<rparr>)) = False
   \<and> lastMqttCommandSent (buttonLoop example_config (Some HIGH) ((boot 7)\<lparr>bulbOn := True\<rparr>)) = 7
   \<and> pushCount (buttonLoop example_config (Some HIGH) ((boot 7)\<lparr>bulbOn := True\<rparr>)) = 1
   \<and> events (buttonLoop example_config (Some HIGH) ((boot 7)\<lparr>bulbOn := True\<rparr>))
       = [Publish BULB_OFF]"
proof -
  have h: "toggleSwitch example_config HIGH"
    by (simp add: toggleSwitch_def example_config_def)
  from button_edge_effects [OF h refl, of "(boot 7)\<lparr>bulbOn := True\<rparr>"] h
  show ?thesis by (simp add: boot_def example_config_def)
qed

text \<open>After boot, bulb and relay off: one button edge turns the bulb state ON, the relay stays off.\<close>

theorem button_edge_counterexample:
  "toggleSwitch example_config LOW \<and>
   buttonLoop example_config (Some LOW) (boot 7)
     = (boot 7)\<lparr>bulbOn := True, relayOn := False, lastMqttCommandSent := 7, pushCount := 1,
                 events := [Publish BULB_ON]\<rparr>"
  by (simp add: buttonLoop_def engine_defs Let_def toggleSwitch_def boot_def example_config_def)

subsection \<open>Command timeout\<close>

text \<open>
  C5. If a command is pending (sent at a time other than 0) and more than the command
  timeout has gone by, the timeout check increments the timeout counter, clears the
  pending command and sets the failure flag. A whole pass of \<^verbatim>\<open>loop\<close> without inbound
  message does the same; only a button edge in that pass starts a new pending command.
\<close>

theorem command_timeout_enters_bypass:
  assumes "lastMqttCommandSent s \<noteq> 0"
    and "COMMAND_TIMEOUT cfg < millis s - lastMqttCommandSent s"
    and "inbound inp = []"
  shows "pushLost (manageCommandTimeout cfg s) = pushLost s + 1
       \<and> lastMqttCommandSent (manageCommandTimeout cfg s) = 0
       \<and> mqttCommandFailed (manageCommandTimeout cfg s)
       \<and> (\<exists>s'. loop cfg inp s = Inr s' \<and> pushLost s' = pushLost s + 1
              \<and> mqttCommandFailed s'
              \<and> lastMqttCommandSent s' = (if pressed cfg (button inp) then millis s' else 0))"
proof -
  from mqttLoop_idle [OF assms(3)] obtain m where m: "mqttLoop cfg inp s = Inr m"
    and same: "lastMqttCommandSent m = lastMqttCommandSent s" "millis m = millis s"
      "pushLost m = pushLost s"
    by blast
  from assms(1,2) same have "lastMqttCommandSent m \<noteq> 0"
    "COMMAND_TIMEOUT cfg < millis m - lastMqttCommandSent m" by simp_all
  from manageCommandTimeout_fires [OF this] same
  have fired: "pushLost (manageCommandTimeout cfg m) = pushLost s + 1"
    "lastMqttCommandSent (manageCommandTimeout cfg m) = 0"
    "mqttCommandFailed (manageCommandTimeout cfg m)" by simp_all
  have pending: "lastMqttCommandSent (buttonLoop cfg u t)
      = (if pressed cfg u then millis (buttonLoop cfg u t) else lastMqttCommandSent t)"
    for u t
    by (auto simp: buttonLoop_def pressed_def engine_defs Let_def split: option.splits)
  have "loop cfg inp s = Inr (buttonLoop cfg (button inp) (manageCommandTimeout cfg m))"
    using m by (simp add: loop_def)
  with fired pending manageCommandTimeout_fires [OF assms(1,2)] show ?thesis
    by (simp add: buttonLoop_keeps)
qed

theorem command_timeout_enters_bypass_witness:
  "lastMqttCommandSent ((boot 3000)\<lparr>lastMqttCommandSent := 1000\<rparr>) \<noteq> 0
   \<and> COMMAND_TIMEOUT example_config
       < millis ((boot 3000)\<lparr>lastMqttCommandSent := 1000\<rparr>)
         - lastMqttCommandSent ((boot 3000)\<lparr>lastMqttCommandSent := 1000\<rparr>)
   \<and> inbound (quiet None) = []
   \<and> pushLost (manageCommandTimeout example_config
                  ((boot 3000)\<lparr>lastMqttCommandSent := 1000\<rparr>)) = 1
   \<and> lastMqttCommandSent (manageCommandTimeout example_config
                  ((boot 3000)\<lparr>lastMqttCommandSent := 1000\<rparr>)) = 0
   \<and> mqttCommandFailed (manageCommandTimeout example_config
                  ((boot 3000)\<lparr>lastMqttCommandSent := 1000\<rparr>))
   \<and> (\<exists>s'. loop example_config (quiet None) ((boot 3000)\<lparr>lastMqttCommandSent := 1000\<rparr>)
               = Inr s'
          \<and> pushLost s' = 1 \<and> mqttCommandFailed s' \<and> lastMqttCommandSent s' = 0)"
proof -
  let ?s = "(boot 3000)\<lparr>lastMqttCommandSent := 1000\<rparr>"
  have h1: "lastMqttCommandSent ?s \<noteq> 0" by simp
  have h2: "COMMAND_TIMEOUT example_config < millis ?s - lastMqttCommandSent ?s"
    by (simp add: example_config_def boot_def)
  have h3: "inbound (quiet None) = []" by (simp add: quiet_def)
  have np: "\<not> pressed example_config (button (quiet None))"
    by (simp add: pressed_def quiet_def)
  have z: "pushLost ?s = 0" by (simp add: boot_def)
  from command_timeout_enters_bypass [OF h1 h2 h3] h1 h2 h3 np z show ?thesis
    by simp
qed

subsection \<open>Inbound messages\<close>

text \<open>
  C6. In bypass mode any inbound message that fits the message buffer has the same
  effect, whatever its topic and payload: the resync counter goes up by one, the current
  bulb state is published again (which also records the command as pending at the
  current time), and the failure flag is cleared. Bulb state and relay are untouched.
\<close>

theorem bypass_message_resyncs:
  assumes "mqttCommandFailed s" and "length payload < MQTT_MAX_PACKET_SIZE cfg"
  shows "mqttCallback cfg topic payload s
         = Inr (s\<lparr>syncLost := syncLost s + 1,
                   events := events s @ [Publish (if bulbOn s then BULB_ON else BULB_OFF)],
                   lastMqttCommandSent := millis s,
                   mqttCommandFailed := False\<rparr>)"
  using assms by (simp add: mqttCallback_def message_of_fits engine_defs)

theorem bypass_message_resyncs_witness:
  "mqttCommandFailed ((boot 9)\<lparr>bulbOn := True, relayOn := True, mqttCommandFailed := True\<rparr>)
   \<and> length ''OFF'' < MQTT_MAX_PACKET_SIZE example_config
   \<and> mqttCallback example_config ''state'' ''OFF''
        ((boot 9)\<lparr>bulbOn := True, relayOn := True, mqttCommandFailed := True\<rparr>)
      = Inr ((boot 9)\<lparr>bulbOn := True, relayOn := True, syncLost := 1,
                      lastMqttCommandSent := 9, events := [Publish BULB_ON]\<rparr>)"
proof -
  let ?s = "(boot 9)\<lparr>bulbOn := True, relayOn := True, mqttCommandFailed := True\<rparr>"
  have h1: "mqttCommandFailed ?s" by simp
  have h2: "length ''OFF'' < MQTT_MAX_PACKET_SIZE example_config"
    by (simp add: example_config_def)
  from bypass_message_resyncs [OF h1 h2, of "''state''"] h1 h2 show ?thesis
    by (simp add: boot_def)
qed

text \<open>
  C7. In normal mode an inbound message that fits the message buffer and whose payload
  contains neither the ON token nor the OFF token changes nothing at all: the state
  after the callback, with its counters and its list of published messages, is the state
  before. In bypass mode such a message is not ignored: it triggers the resynchronisation
  of C6.
\<close>

theorem tokenless_message_ignored:
  assumes "\<not> mqttCommandFailed s" and "length payload < MQTT_MAX_PACKET_SIZE cfg"
    and "\<not> sublist (STATE_ON cfg) payload" and "\<not> sublist (STATE_OFF cfg) payload"
  shows "mqttCallback cfg topic payload s = Inr s"
  using assms sublist_c_str
  by (auto simp add: mqttCallback_def message_of_fits c_str_terminated strstr_iff_sublist)

theorem tokenless_message_ignored_witness:
  "\<not> mqttCommandFailed (boot 9)
   \<and> length ''hello'' < MQTT_MAX_PACKET_SIZE example_config
   \<and> \<not> sublist (STATE_ON example_config) ''hello''
   \<and> \<not> sublist (STATE_OFF example_config) ''hello''
   \<and> mqttCallback example_config ''state'' ''hello'' (boot 9) = Inr (boot 9)"
proof -
  have h1: "\<not> mqttCommandFailed (boot 9)" by (simp add: boot_def)
  have h2: "length ''hello'' < MQTT_MAX_PACKET_SIZE example_config"
    by (simp add: example_config_def)
  have h3: "\<not> sublist (STATE_ON example_config) ''hello''"
    by (simp add: strstr_iff_sublist [symmetric] example_config_def)
  have h4: "\<not> sublist (STATE_OFF example_config) ''hello''"
    by (simp add: strstr_iff_sublist [symmetric] example_config_def)
  from tokenless_message_ignored [OF h1 h2 h3 h4, of "''state''"] h1 h2 h3 h4
  show ?thesis by simp
qed

text \<open>In bypass mode a payload without any token changes a counter and publishes.\<close>

theorem tokenless_message_counterexample:
  "\<not> sublist (STATE_ON example_config) ''hello''
   \<and> \<not> sublist (STATE_OFF example_config) ''hello''
   \<and> mqttCallback example_config ''state'' ''hello'' ((boot 9)\<lparr>mqttCommandFailed := True\<rparr>)
      = Inr ((boot 9)\<lparr>syncLost := 1, lastMqttCommandSent := 9,
                      events := [Publish BULB_OFF]\<rparr>)"
  by (simp add: strstr_iff_sublist [symmetric] concrete_defs engine_defs)

text \<open>
  C10. The payload is read as a C string, that is up to its first zero byte. In normal
  mode an inbound message that fits the message buffer and whose payload, read so,
  contains both the ON token and the OFF token is treated as ON: the bulb state is set
  ON, the relay is set ON and the pending command is cleared.
\<close>

theorem on_token_wins:
  assumes "\<not> mqttCommandFailed s" and "length payload < MQTT_MAX_PACKET_SIZE cfg"
    and "sublist (STATE_ON cfg) (c_str payload)" and "sublist (STATE_OFF cfg) (c_str payload)"
  shows "\<exists>s'. mqttCallback cfg topic payload s = Inr s'
           \<and> bulbOn s' \<and> relayOn s' \<and> lastMqttCommandSent s' = 0 \<and> \<not> mqttCommandFailed s'"
  using assms
  by (simp add: mqttCallback_def message_of_fits c_str_terminated strstr_iff_sublist)

theorem on_token_wins_witness:
  "\<not> mqttCommandFailed ((boot 9)\<lparr>lastMqttCommandSent := 5\<rparr>)
   \<and> length ''OFF,ON'' < MQTT_MAX_PACKET_SIZE example_config
   \<and> sublist (STATE_ON example_config) (c_str ''OFF,ON'')
   \<and> sublist (STATE_OFF example_config) (c_str ''OFF,ON'')
   \<and> (\<exists>s'. mqttCallback example_config ''state'' ''OFF,ON''
               ((boot 9)\<lparr>lastMqttCommandSent := 5\<rparr>) = Inr s'
          \<and> bulbOn s' \<and> relayOn s' \<and> lastMqttCommandSent s' = 0)"
proof -
  let ?s = "(boot 9)\<lparr>lastMqttCommandSent := 5\<rparr>"
  have h1: "\<not> mqttCommandFailed ?s" by (simp add: boot_def)
  have h2: "length ''OFF,ON'' < MQTT_MAX_PACKET_SIZE example_config"
    by (simp add: example_config_def)
  have h3: "sublist (STATE_ON example_config) (c_str ''OFF,ON'')"
    by (simp add: strstr_iff_sublist [symmetric] example_config_def c_str_def)
  have h4: "sublist (STATE_OFF example_config) (c_str ''OFF,ON'')"
    by (simp add: strstr_iff_sublist [symmetric] example_config_def c_str_def)
  from on_token_wins [OF h1 h2 h3 h4, of "''state''"] h1 h2 h3 h4 show ?thesis
    by blast
qed

text \<open>
  The six bytes \<^verbatim>\<open>O F F 0 O N\<close> contain both tokens, but the C string ends at the zero
  byte: with bulb and relay ON the message is treated as OFF.
\<close>

theorem on_token_counterexample:
  "sublist (STATE_ON example_config) (''OFF'' @ [NUL] @ ''ON'')
   \<and> sublist (STATE_OFF example_config) (''OFF'' @ [NUL] @ ''ON'')
   \<and> mqttCallback example_config ''state'' (''OFF'' @ [NUL] @ ''ON'')
        ((boot 9)\<lparr>bulbOn := True, relayOn := True\<rparr>)
      = Inr ((boot 9)\<lparr>bulbOn := False, relayOn := True\<rparr>)"
  by (simp add: strstr_iff_sublist [symmetric] concrete_defs engine_defs)

subsection \<open>The relay in normal mode\<close>

text \<open>
  C8. In normal mode the relay, once on, stays on. For every step that starts with the
  failure flag clear and the relay ON and that does not enter bypass mode, the relay is
  still ON afterwards and nothing was written to the relay pin. The steps are a delivery
  to the callback, the timeout check, the button check and a whole pass of \<^verbatim>\<open>loop\<close>.
  The callback and the button check never enter bypass mode.
\<close>

theorem relay_stays_on_in_normal_mode:
  assumes "\<not> mqttCommandFailed s" and "relayOn s"
  shows "(mqttCallback cfg topic payload s = Inr s1
            \<longrightarrow> \<not> mqttCommandFailed s1 \<and> relayOn s1 \<and> relay_writes s1 = relay_writes s)
       \<and> (\<not> mqttCommandFailed (manageCommandTimeout cfg s)
            \<longrightarrow> relayOn (manageCommandTimeout cfg s)
              \<and> relay_writes (manageCommandTimeout cfg s) = relay_writes s)
       \<and> \<not> mqttCommandFailed (buttonLoop cfg upd s)
       \<and> relayOn (buttonLoop cfg upd s)
       \<and> relay_writes (buttonLoop cfg upd s) = relay_writes s
       \<and> (loop cfg inp s = Inr s2 \<longrightarrow> \<not> mqttCommandFailed s2
            \<longrightarrow> relayOn s2 \<and> relay_writes s2 = relay_writes s)"
proof (intro conjI impI)
  assume "mqttCallback cfg topic payload s = Inr s1"
  from mqttCallback_normal [OF assms this]
  show "\<not> mqttCommandFailed s1" "relayOn s1" "relay_writes s1 = relay_writes s"
    by simp_all
next
  assume "\<not> mqttCommandFailed (manageCommandTimeout cfg s)"
  from manageCommandTimeout_normal [OF assms(1) this] assms(2)
  show "relayOn (manageCommandTimeout cfg s)"
    "relay_writes (manageCommandTimeout cfg s) = relay_writes s" by simp_all
next
  show "\<not> mqttCommandFailed (buttonLoop cfg upd s)" "relayOn (buttonLoop cfg upd s)"
    "relay_writes (buttonLoop cfg upd s) = relay_writes s"
    using assms by (simp_all add: buttonLoop_keeps buttonLoop_relay_writes)
next
  assume pass: "loop cfg inp s = Inr s2" and normal: "\<not> mqttCommandFailed s2"
  from pass obtain m where m: "mqttLoop cfg inp s = Inr m"
    and s2: "s2 = buttonLoop cfg (button inp) (manageCommandTimeout cfg m)"
    by (auto simp: loop_def split: sum.splits)
  from mqttLoop_normal [OF assms m]
  have m_ok: "\<not> mqttCommandFailed m" "relayOn m" "relay_writes m = relay_writes s"
    by simp_all
  from normal s2 have "\<not> mqttCommandFailed (manageCommandTimeout cfg m)"
    by (simp add: buttonLoop_keeps)
  from manageCommandTimeout_normal [OF m_ok(1) this] m_ok(2,3) s2
  show "relayOn s2" "relay_writes s2 = relay_writes s"
    by (simp_all add: buttonLoop_keeps buttonLoop_relay_writes)
qed

theorem relay_stays_on_in_normal_mode_witness:
  "\<not> mqttCommandFailed ((boot 50)\<lparr>bulbOn := True, relayOn := True\<rparr>)
   \<and> relayOn ((boot 50)\<lparr>bulbOn := True, relayOn := True\<rparr>)
   \<and> mqttCallback example_config ''state'' ''OFF'' ((boot 50)\<lparr>bulbOn := True, relayOn := True\<rparr>)
       = Inr ((boot 50)\<lparr>bulbOn := False, relayOn := True\<rparr>)
   \<and> relayOn ((boot 50)\<lparr>bulbOn := False, relayOn := True\<rparr>)
   \<and> \<not> mqttCommandFailed
         (manageCommandTimeout example_config ((boot 50)\<lparr>bulbOn := True, relayOn := True\<rparr>))
   \<and> relayOn (manageCommandTimeout example_config ((boot 50)\<lparr>bulbOn := True, relayOn := True\<rparr>))
   \<and> relayOn (buttonLoop example_config (Some LOW) ((boot 50)\<lparr>bulbOn := True, relayOn := True\<rparr>))
   \<and> loop example_config (quiet (Some LOW)) ((boot 50)\<lparr>bulbOn := True, relayOn := True\<rparr>)
       = Inr ((boot 50)\<lparr>bulbOn := False, relayOn := True, lastMqttCommandSent := 50,
                        mqttAvailable := True, pushCount := 1,
                        events := [Publish BULB_OFF]\<rparr>)
   \<and> relayOn ((boot 50)\<lparr>bulbOn := False, relayOn := True, lastMqttCommandSent := 50,
                        mqttAvailable := True, pushCount := 1,
                        events := [Publish BULB_OFF]\<rparr>)"
proof -
  let ?s = "(boot 50)\<lparr>bulbOn := True, relayOn := True\<rparr>"
  let ?s1 = "(boot 50)\<lparr>bulbOn := False, relayOn := True\<rparr>"
  let ?s2 = "(boot 50)\<lparr>bulbOn := False, relayOn := True, lastMqttCommandSent := 50,
                        mqttAvailable := True, pushCount := 1,
                        events := [Publish BULB_OFF]\<rparr>"
  have h1: "\<not> mqttCommandFailed ?s" by (simp add: boot_def)
  have h2: "relayOn ?s" by simp
  have c: "mqttCallback example_config ''state'' ''OFF'' ?s = Inr ?s1"
    by (simp add: concrete_defs engine_defs)
  have t: "\<not> mqttCommandFailed (manageCommandTimeout example_config ?s)"
    by (simp add: concrete_defs engine_defs)
  have l: "loop example_config (quiet (Some LOW)) ?s = Inr ?s2"
    by (simp add: concrete_defs engine_defs)
  have n: "\<not> mqttCommandFailed ?s2" by (simp add: boot_def)
  from relay_stays_on_in_normal_mode
         [OF h1 h2, of example_config "''state''" "''OFF''" ?s1 "Some LOW"
                       "quiet (Some LOW)" ?s2]
       h1 h2 c t l n
  show ?thesis by blast
qed

subsection \<open>The message buffer\<close>

text \<open>
  C9. Every store into the local buffer \<^verbatim>\<open>message\<close> should stay inside it, for every
  payload length. The copy does, but for a payload at least as long as the buffer the
  length is clamped to the buffer size itself, and the terminating zero is stored at
  that index, one past the last element: here at index 128 of a buffer of 128 bytes.
\<close>

theorem terminator_stored_past_buffer:
  "MQTT_MAX_PACKET_SIZE example_config = 128
   \<and> msglen_of (MQTT_MAX_PACKET_SIZE example_config) (length (replicate 128 (CHR ''A''))) = 128
   \<and> mqttCallback example_config ''state'' (replicate 128 (CHR ''A'')) (boot 0)
      = Inl (BufferOverrun 128)"
  by (simp add: mqttCallback_def message_of_def msglen_of_def example_config_def)

end
